theory Spec2Isabelle
  imports Complex_Main "HOL-Library.AList"
begin

section \<open>Mall billing system: the cashier's cart, promo codes and checkout\<close>

text \<open>
  The development embeds the request handlers \<open>pos\<close>, \<open>checkout\<close> and
  \<open>admin_sales_summary\<close> of \<open>app.py\<close> together with the helpers they call.

  Numbers. The columns \<open>price\<close>, \<open>total\<close>, \<open>paid_cash\<close>, \<open>change_due\<close> and
  \<open>discount_value\<close> are Python floats in the source. They are embedded as exact
  rationals, and \<open>round(x, 2)\<close> as rounding to the nearest hundredth with ties to the
  even hundredth (what Python does with the exact value of its argument). Quantities,
  stock counts and identifiers are Python integers, embedded as \<open>int\<close>.

  Strings are ASCII strings; \<open>strip\<close>, \<open>upper\<close>, \<open>int\<close> and \<open>str\<close> follow
  Python on ASCII input.
\<close>

subsection \<open>Python primitives used by the handlers\<close>

definition round2 :: "rat \<Rightarrow> rat" where
  "round2 x =
     (let y = x * 100;
          f = \<lfloor>y\<rfloor>;
          d = y - of_int f
      in of_int (if d < 1 / 2 then f
                 else if 1 / 2 < d then f + 1
                 else if even f then f else f + 1) / 100)"

definition isspace :: "char \<Rightarrow> bool" where
  "isspace c = (let n = (of_char c :: nat) in (9 \<le> n \<and> n \<le> 13) \<or> (28 \<le> n \<and> n \<le> 32))"

definition strip :: "string \<Rightarrow> string" where
  "strip s = rev (dropWhile isspace (rev (dropWhile isspace s)))"

definition upper_char :: "char \<Rightarrow> char" where
  "upper_char c =
     (let n = (of_char c :: nat) in if 97 \<le> n \<and> n \<le> 122 then char_of (n - 32) else c)"

definition upper :: "string \<Rightarrow> string" where
  "upper s = map upper_char s"

definition isdigit :: "char \<Rightarrow> bool" where
  "isdigit c = (let n = (of_char c :: nat) in 48 \<le> n \<and> n \<le> 57)"

definition digit_val :: "char \<Rightarrow> int" where
  "digit_val c = int (of_char c) - 48"

text \<open>
  \<open>int(s)\<close> on a string: surrounding whitespace is dropped, one sign is allowed, then
  decimal digits, where single underscores may separate digits. Anything else raises
  \<open>ValueError\<close>, here \<open>None\<close>. Leading zeros are accepted: \<open>int("01") = 1\<close>.
\<close>

fun int_digits :: "int \<Rightarrow> string \<Rightarrow> int option" where
  "int_digits acc [] = Some acc"
| "int_digits acc [c] = (if isdigit c then Some (acc * 10 + digit_val c) else None)"
| "int_digits acc (c # d # ds) =
     (if isdigit c then int_digits (acc * 10 + digit_val c) (d # ds)
      else if c = CHR ''_'' \<and> isdigit d then int_digits (acc * 10 + digit_val d) ds
      else None)"

definition int_unsigned :: "string \<Rightarrow> int option" where
  "int_unsigned s =
     (case s of
        [] \<Rightarrow> None
      | d # ds \<Rightarrow> if isdigit d then int_digits (digit_val d) ds else None)"

definition py_int :: "string \<Rightarrow> int option" where
  "py_int s =
     (case strip s of
        [] \<Rightarrow> None
      | c # cs \<Rightarrow>
          if c = CHR ''-'' then map_option uminus (int_unsigned cs)
          else if c = CHR ''+'' then int_unsigned cs
          else int_unsigned (c # cs))"

text \<open>\<open>str(n)\<close> on an integer: its decimal digits, with a minus sign when negative.\<close>

fun str_nat :: "nat \<Rightarrow> string" where
  "str_nat n =
     (if n < 10 then [char_of (48 + n)]
      else str_nat (n div 10) @ [char_of (48 + n mod 10)])"

definition str :: "int \<Rightarrow> string" where
  "str i = (if i < 0 then CHR ''-'' # str_nat (nat (- i)) else str_nat (nat i))"

subsection \<open>The tables and the session\<close>

text \<open>
  One record per model class of \<open>app.py\<close>, with the columns the handlers read or
  write. A table is the list of its rows; \<open>Model.query.get\<close> and \<open>.first()\<close> return
  the first row that matches.
\<close>

record product =
  p_id :: int
  p_name :: string
  p_barcode :: string
  p_price :: rat
  p_stock :: int
  p_low_stock :: bool

record order =
  o_id :: int
  o_cashier_id :: int
  o_total :: rat
  o_paid_cash :: rat
  o_change_due :: rat
  o_created_at :: int
  o_payment_method :: string

record order_item =
  i_order_id :: int
  i_product_id :: int
  i_quantity :: int
  i_unit_price :: rat

record promocode =
  c_code :: string
  c_discount_type :: string
  c_discount_value :: rat
  c_active :: bool
  c_expires_at :: "int option"

text \<open>
  The cart is the dictionary \<open>session["cart"]\<close>, from the product identifier as a
  string to the quantity. It is an association list in insertion order with one pair
  per key: \<open>AList.update\<close> replaces the value of a present key where it stands and
  appends an absent one, as assignment to a Python dictionary does.
\<close>

type_synonym cart = "(string \<times> int) list"

record state =
  products :: "product list"
  promocodes :: "promocode list"
  orders :: "order list"
  order_items :: "order_item list"
  cart :: cart

datatype error =
    EmptyCart
  | InsufficientStock string
  | InvalidPromo
  | InsufficientPayment
  | ValueError
  | TypeError
  | AttributeError
  | NotFound

definition get_product :: "product list \<Rightarrow> int \<Rightarrow> product option" where
  "get_product ps i = find (\<lambda>p. p_id p = i) ps"

definition product_by_barcode :: "product list \<Rightarrow> string \<Rightarrow> product option" where
  "product_by_barcode ps code = find (\<lambda>p. p_barcode p = code) ps"

definition active_promo :: "promocode list \<Rightarrow> string \<Rightarrow> promocode option" where
  "active_promo pcs code = find (\<lambda>pc. c_code pc = code \<and> c_active pc) pcs"

text \<open>Writing a column of the row that \<open>Product.query.get(i)\<close> returned.\<close>

fun update_product :: "int \<Rightarrow> (product \<Rightarrow> product) \<Rightarrow> product list \<Rightarrow> product list" where
  "update_product i f [] = []"
| "update_product i f (p # ps) =
     (if p_id p = i then f p # ps else p # update_product i f ps)"

subsection \<open>The POS form actions\<close>

text \<open>
  The \<open>POST\<close> branch of \<open>pos\<close>. A form field is \<open>None\<close> when the request does not
  carry it. The handler answers with a redirect, here \<open>Inr\<close> with the message it
  flashed if any; an uncaught exception or a 404 is \<open>Inl\<close>, and then nothing was
  written.
\<close>

datatype action =
    AddByBarcode "string option"
  | UpdateQty string "string option"
  | Clear
  | MarkLow "string option"
  | UnmarkLow "string option"
  | AddById "string option"
  | OtherAction

definition cart_add :: "cart \<Rightarrow> string \<Rightarrow> cart" where
  "cart_add c pid = AList.update pid ((case map_of c pid of None \<Rightarrow> 0 | Some q \<Rightarrow> q) + 1) c"

definition form_int :: "string option \<Rightarrow> error + int" where
  "form_int v =
     (case v of
        None \<Rightarrow> Inl TypeError
      | Some s \<Rightarrow> (case py_int s of None \<Rightarrow> Inl ValueError | Some i \<Rightarrow> Inr i))"

definition set_low_stock :: "state \<Rightarrow> string option \<Rightarrow> bool \<Rightarrow> (error + string option) \<times> state" where
  "set_low_stock st v flag =
     (case form_int v of
        Inl e \<Rightarrow> (Inl e, st)
      | Inr pid \<Rightarrow>
          (case get_product (products st) pid of
             None \<Rightarrow> (Inl NotFound, st)
           | Some product \<Rightarrow>
               (Inr (Some (p_name product)),
                st\<lparr>products := update_product pid (\<lambda>p. p\<lparr>p_low_stock := flag\<rparr>) (products st)\<rparr>)))"

fun pos_post :: "state \<Rightarrow> action \<Rightarrow> (error + string option) \<times> state" where
  "pos_post st (AddByBarcode v) =
     (let code = strip (case v of None \<Rightarrow> [] | Some s \<Rightarrow> s) in
      if code = [] then (Inr (Some ''Scan or enter a barcode.''), st)
      else (case product_by_barcode (products st) code of
              None \<Rightarrow> (Inr (Some ''Product not found.''), st)
            | Some product \<Rightarrow> (Inr None, st\<lparr>cart := cart_add (cart st) (str (p_id product))\<rparr>)))"
| "pos_post st (UpdateQty pid v) =
     (case (case v of None \<Rightarrow> Some 1 | Some s \<Rightarrow> py_int s) of
        None \<Rightarrow> (Inl ValueError, st)
      | Some n \<Rightarrow>
          (let qty = max 0 n in
           if qty = 0 then (Inr None, st\<lparr>cart := AList.delete pid (cart st)\<rparr>)
           else (Inr None, st\<lparr>cart := AList.update pid qty (cart st)\<rparr>)))"
| "pos_post st Clear = (Inr None, st\<lparr>cart := []\<rparr>)"
| "pos_post st (MarkLow v) = set_low_stock st v True"
| "pos_post st (UnmarkLow v) = set_low_stock st v False"
| "pos_post st (AddById v) =
     (case form_int v of
        Inl e \<Rightarrow> (Inl e, st)
      | Inr pid \<Rightarrow>
          (case get_product (products st) pid of
             None \<Rightarrow> (Inr None, st)
           | Some product \<Rightarrow> (Inr None, st\<lparr>cart := cart_add (cart st) (str (p_id product))\<rparr>)))"
| "pos_post st OtherAction = (Inr None, st)"

subsection \<open>Promo codes\<close>

text \<open>
  The discount of a promo code on a subtotal, as both \<open>pos\<close> and \<open>checkout\<close>
  compute it: a percentage is rounded to the hundredth, any other kind is a fixed amount
  capped by the subtotal. A code is usable when it has no expiry or expires at the
  evaluation time or later.
\<close>

definition promo_amount :: "promocode \<Rightarrow> rat \<Rightarrow> rat" where
  "promo_amount pc subtotal =
     (if c_discount_type pc = ''percent''
      then round2 (subtotal * (c_discount_value pc / 100))
      else min subtotal (c_discount_value pc))"

definition not_expired :: "promocode \<Rightarrow> int \<Rightarrow> bool" where
  "not_expired pc now = (case c_expires_at pc of None \<Rightarrow> True | Some e \<Rightarrow> now \<le> e)"

definition usable_promo :: "promocode list \<Rightarrow> int \<Rightarrow> string \<Rightarrow> promocode option" where
  "usable_promo pcs now code =
     (case active_promo pcs code of
        None \<Rightarrow> None
      | Some pc \<Rightarrow> if not_expired pc now then Some pc else None)"

subsection \<open>The POS view\<close>







subsection \<open>Checkout\<close>

text \<open>
  The form of \<open>checkout\<close>. \<open>float(request.form.get("paid_cash", 0.0))\<close> is read
  only for a cash payment: the field is missing, or holds a number, or holds text that
  \<open>float\<close> rejects.
\<close>

datatype float_field = Missing | Parsed rat | Unparsable

record checkout_form =
  f_payment_method :: "string option"
  f_promo_code :: "string option"
  f_paid_cash :: float_field

text \<open>The first loop: every cart entry is resolved and its stock checked, in cart order.\<close>

fun cart_subtotal :: "product list \<Rightarrow> cart \<Rightarrow> rat \<Rightarrow> error + rat" where
  "cart_subtotal ps [] subtotal = Inr subtotal"
| "cart_subtotal ps ((pid, qty) # rest) subtotal =
     (case py_int pid of
        None \<Rightarrow> Inl ValueError
      | Some i \<Rightarrow>
          (case get_product ps i of
             None \<Rightarrow> Inl (InsufficientStock ''Unknown'')
           | Some product \<Rightarrow>
               if p_stock product < qty then Inl (InsufficientStock (p_name product))
               else cart_subtotal ps rest (subtotal + p_price product * of_int qty)))"

definition checkout_discount :: "promocode list \<Rightarrow> int \<Rightarrow> string \<Rightarrow> rat \<Rightarrow> error + rat" where
  "checkout_discount pcs now promo_code subtotal =
     (if promo_code = [] then Inr 0
      else (case usable_promo pcs now promo_code of
              Some pc \<Rightarrow> Inr (promo_amount pc subtotal)
            | None \<Rightarrow> Inl InvalidPromo))"

definition form_float :: "float_field \<Rightarrow> error + rat" where
  "form_float v = (case v of Missing \<Rightarrow> Inr 0 | Parsed x \<Rightarrow> Inr x | Unparsable \<Rightarrow> Inl ValueError)"

definition settle :: "string \<Rightarrow> float_field \<Rightarrow> rat \<Rightarrow> error + (rat \<times> rat)" where
  "settle payment_method paid total_due =
     (if payment_method = ''cash'' then
        (case form_float paid of
           Inl e \<Rightarrow> Inl e
         | Inr amount_paid \<Rightarrow>
             if amount_paid < total_due then Inl InsufficientPayment
             else Inr (amount_paid, round2 (amount_paid - total_due)))
      else Inr (total_due, 0))"

definition next_order_id :: "order list \<Rightarrow> int" where
  "next_order_id os = fold max (map o_id os) 0 + 1"

text \<open>
  The second loop: one order item per cart entry at the product's current price, and the
  product's stock lowered by the quantity. Each step reads the products as the steps
  before it left them.
\<close>

fun place_items ::
  "int \<Rightarrow> cart \<Rightarrow> product list \<Rightarrow> order_item list \<Rightarrow> error + (product list \<times> order_item list)" where
  "place_items oid [] ps items = Inr (ps, items)"
| "place_items oid ((pid, qty) # rest) ps items =
     (case py_int pid of
        None \<Rightarrow> Inl ValueError
      | Some i \<Rightarrow>
          (case get_product ps i of
             None \<Rightarrow> Inl AttributeError
           | Some product \<Rightarrow>
               place_items oid rest
                 (update_product i (\<lambda>p. p\<lparr>p_stock := p_stock p - qty\<rparr>) ps)
                 (items @ [\<lparr>i_order_id = oid, i_product_id = p_id product,
                            i_quantity = qty, i_unit_price = p_price product\<rparr>])))"

definition payment_method_of :: "checkout_form \<Rightarrow> string" where
  "payment_method_of form = (case f_payment_method form of None \<Rightarrow> ''cash'' | Some m \<Rightarrow> m)"

definition promo_code_of :: "checkout_form \<Rightarrow> string" where
  "promo_code_of form = upper (strip (case f_promo_code form of None \<Rightarrow> [] | Some s \<Rightarrow> s))"

definition checkout :: "state \<Rightarrow> int \<Rightarrow> int \<Rightarrow> checkout_form \<Rightarrow> (error + order) \<times> state" where
  "checkout st cashier now form =
     (if cart st = [] then (Inl EmptyCart, st)
      else
        (case cart_subtotal (products st) (cart st) 0 of
           Inl e \<Rightarrow> (Inl e, st)
         | Inr subtotal \<Rightarrow>
             (let payment_method = payment_method_of form;
                  promo_code = promo_code_of form
              in case checkout_discount (promocodes st) now promo_code subtotal of
                   Inl e \<Rightarrow> (Inl e, st)
                 | Inr promo_discount \<Rightarrow>
                     (let total_due = max 0 (round2 (subtotal - promo_discount)) in
                      case settle payment_method (f_paid_cash form) total_due of
                        Inl e \<Rightarrow> (Inl e, st)
                      | Inr (amount_paid, change_due) \<Rightarrow>
                          (let order = \<lparr>o_id = next_order_id (orders st),
                                        o_cashier_id = cashier, o_total = total_due,
                                        o_paid_cash = amount_paid, o_change_due = change_due,
                                        o_created_at = now, o_payment_method = payment_method\<rparr>
                           in case place_items (o_id order) (cart st) (products st) (order_items st) of
                                Inl e \<Rightarrow> (Inl e, st)
                              | Inr (ps, items) \<Rightarrow>
                                  (Inr order,
                                   st\<lparr>products := ps, orders := orders st @ [order],
                                      order_items := items, cart := []\<rparr>))))))"

subsection \<open>Notions used in the statements\<close>



text \<open>
  What the statements about a checkout speak of: the product a cart entry stands for
  (\<open>Product.query.get(int(pid))\<close>), the amount of an entry and of the cart without
  any rounding, the order item an entry is sold as, and the quantity of product \<open>i\<close> that
  the whole cart orders.
\<close>

definition resolve :: "product list \<Rightarrow> string \<times> int \<Rightarrow> product option" where
  "resolve ps e = (case py_int (fst e) of None \<Rightarrow> None | Some i \<Rightarrow> get_product ps i)"

definition entry_amount :: "product list \<Rightarrow> string \<times> int \<Rightarrow> rat" where
  "entry_amount ps e = (case resolve ps e of None \<Rightarrow> 0 | Some p \<Rightarrow> p_price p * of_int (snd e))"

definition cart_amount :: "product list \<Rightarrow> cart \<Rightarrow> rat" where
  "cart_amount ps c = sum_list (map (entry_amount ps) c)"

definition sold_item :: "product list \<Rightarrow> int \<Rightarrow> string \<times> int \<Rightarrow> order_item option" where
  "sold_item ps oid e =
     map_option
       (\<lambda>p. \<lparr>i_order_id = oid, i_product_id = p_id p, i_quantity = snd e, i_unit_price = p_price p\<rparr>)
       (resolve ps e)"

definition ordered :: "cart \<Rightarrow> int \<Rightarrow> int" where
  "ordered c i = sum_list (map (\<lambda>e. if py_int (fst e) = Some i then snd e else 0) c)"

definition in_stock :: "product list \<Rightarrow> string \<times> int \<Rightarrow> bool" where
  "in_stock ps e = (case resolve ps e of None \<Rightarrow> False | Some p \<Rightarrow> snd e \<le> p_stock p)"

definition lower_stock :: "int \<Rightarrow> product \<Rightarrow> product" where
  "lower_stock n p = p\<lparr>p_stock := p_stock p - n\<rparr>"

text \<open>The items of an order, as the relationship \<open>order.items\<close> selects them.\<close>

definition items_of :: "state \<Rightarrow> order \<Rightarrow> order_item list" where
  "items_of st ord = filter (\<lambda>it. i_order_id it = o_id ord) (order_items st)"

definition items_linked :: "state \<Rightarrow> bool" where
  "items_linked st = list_all (\<lambda>it. i_order_id it \<in> set (map o_id (orders st))) (order_items st)"



text \<open>A promo code is unusable at a time when no active code matches or the match has expired.\<close>

definition unusable :: "promocode list \<Rightarrow> int \<Rightarrow> string \<Rightarrow> bool" where
  "unusable pcs now code =
     (case active_promo pcs code of
        None \<Rightarrow> True
      | Some pc \<Rightarrow> (case c_expires_at pc of None \<Rightarrow> False | Some e \<Rightarrow> e < now))"



subsection \<open>Sample data\<close>



definition product_a :: product where
  "product_a = \<lparr>p_id = 1, p_name = ''ProductA'', p_barcode = ''A100'', p_price = 100,
                p_stock = 5, p_low_stock = False\<rparr>"

definition save10 :: promocode where
  "save10 = \<lparr>c_code = ''SAVE10'', c_discount_type = ''percent'', c_discount_value = 10,
             c_active = True, c_expires_at = None\<rparr>"

definition flat100 :: promocode where
  "flat100 = \<lparr>c_code = ''FLAT100'', c_discount_type = ''fixed'', c_discount_value = 100,
              c_active = True, c_expires_at = Some 500\<rparr>"

definition shop :: state where
  "shop = \<lparr>products = [product_a], promocodes = [save10, flat100], orders = [],
           order_items = [], cart = [(''1'', 2)]\<rparr>"

definition pay_cash :: "string option \<Rightarrow> rat \<Rightarrow> checkout_form" where
  "pay_cash promo amount =
     \<lparr>f_payment_method = Some ''cash'', f_promo_code = promo, f_paid_cash = Parsed amount\<rparr>"

definition pay_card :: "string option \<Rightarrow> checkout_form" where
  "pay_card promo =
     \<lparr>f_payment_method = Some ''card'', f_promo_code = promo, f_paid_cash = Missing\<rparr>"

definition order180 :: order where
  "order180 = \<lparr>o_id = 1, o_cashier_id = 7, o_total = 180, o_paid_cash = 250, o_change_due = 70,
               o_created_at = 400, o_payment_method = ''cash''\<rparr>"




text \<open>
  A till with an empty cart, and the cart after three requests to the POS page: add
  product 1, set the quantity of key \<open>1\<close> to 3, set the quantity of key \<open>01\<close> to 3.
\<close>

definition counter :: state where
  "counter = \<lparr>products = [product_a], promocodes = [], orders = [], order_items = [], cart = []\<rparr>"

definition aliased :: state where
  "aliased =
     fold (\<lambda>a st. snd (pos_post st a))
       [AddById (Some ''1''), UpdateQty ''1'' (Some ''3''), UpdateQty ''01'' (Some ''3'')]
       counter"

section \<open>How a checkout runs\<close>

lemma get_product_update:
  assumes "\<And>p. p_id (f p) = p_id p"
  shows "get_product (update_product j f ps) i =
           (if i = j then map_option f (get_product ps j) else get_product ps i)"
  using assms by (induction ps) (auto simp: get_product_def)

lemma resolve_update:
  assumes "\<And>p. p_id (f p) = p_id p"
  shows "resolve (update_product j f ps) e =
           (if py_int (fst e) = Some j then map_option f (resolve ps e) else resolve ps e)"
  by (auto simp: resolve_def get_product_update [OF assms] split: option.splits)

lemma cart_subtotal_Inr:
  "cart_subtotal ps c s = Inr t \<longleftrightarrow> list_all (in_stock ps) c \<and> t = s + cart_amount ps c"
proof (induction c arbitrary: s)
  case Nil
  show ?case by (auto simp: cart_amount_def)
next
  case (Cons e c)
  obtain pid qty where e: "e = (pid, qty)" by (cases e)
  show ?case
    by (auto simp: e Cons.IH in_stock_def resolve_def cart_amount_def entry_amount_def
             split: option.splits)
qed

lemma sold_item_update:
  "sold_item (update_product j (lower_stock n) ps) oid e = sold_item ps oid e"
proof -
  have "resolve (update_product j (lower_stock n) ps) e =
          (if py_int (fst e) = Some j then map_option (lower_stock n) (resolve ps e) else resolve ps e)"
    by (rule resolve_update) (simp add: lower_stock_def)
  then show ?thesis
    by (cases "resolve ps e") (auto simp: sold_item_def lower_stock_def)
qed

lemma sold_item_update_fun:
  "sold_item (update_product j (lower_stock n) ps) oid = sold_item ps oid"
  by (rule ext) (rule sold_item_update)

lemma lower_stock_twice: "lower_stock m (lower_stock n p) = lower_stock (n + m) p"
  by (simp add: lower_stock_def)

lemma place_items_resolved:
  assumes "list_all (\<lambda>e. resolve ps e \<noteq> None) c"
  shows "\<exists>ps' new. place_items oid c ps items = Inr (ps', items @ new)
           \<and> map (sold_item ps oid) c = map Some new
           \<and> (\<forall>i. get_product ps' i = map_option (lower_stock (ordered c i)) (get_product ps i))"
  using assms
proof (induction c arbitrary: ps items)
  case Nil
  have "map_option (lower_stock 0) x = x" for x :: "product option"
    by (cases x) (simp_all add: lower_stock_def)
  then show ?case by (simp add: ordered_def)
next
  case (Cons e c)
  obtain pid qty where e: "e = (pid, qty)" by (cases e)
  from Cons.prems obtain j p where j: "py_int pid = Some j" and p: "get_product ps j = Some p"
    by (auto simp: e resolve_def split: option.splits)
  let ?ps1 = "update_product j (lower_stock qty) ps"
  let ?it = "\<lparr>i_order_id = oid, i_product_id = p_id p, i_quantity = qty, i_unit_price = p_price p\<rparr>"
  have id: "\<And>p. p_id (lower_stock qty p) = p_id p" by (simp add: lower_stock_def)
  have res1: "list_all (\<lambda>e. resolve ?ps1 e \<noteq> None) c"
    using Cons.prems by (auto simp: list_all_iff resolve_update [OF id])
  from Cons.IH [OF res1, of "items @ [?it]"]
  obtain ps' new where
    run: "place_items oid c ?ps1 (items @ [?it]) = Inr (ps', (items @ [?it]) @ new)" and
    new: "map (sold_item ?ps1 oid) c = map Some new" and
    get: "\<forall>i. get_product ps' i = map_option (lower_stock (ordered c i)) (get_product ?ps1 i)"
    by blast
  have step: "place_items oid (e # c) ps items = Inr (ps', items @ (?it # new))"
    using run by (simp add: e j p lower_stock_def [abs_def])
  have items: "map (sold_item ps oid) (e # c) = map Some (?it # new)"
    using new by (simp add: sold_item_update_fun) (simp add: e sold_item_def resolve_def j p)
  have stock: "get_product ps' i = map_option (lower_stock (ordered (e # c) i)) (get_product ps i)" for i
  proof (cases "i = j")
    case True
    then show ?thesis
      by (simp add: get get_product_update [OF id] p e j ordered_def lower_stock_twice)
  next
    case False
    then show ?thesis
      by (simp add: get get_product_update [OF id] e j ordered_def)
  qed
  from step items stock show ?case by blast
qed


lemma in_stock_resolves: "list_all (in_stock ps) c \<Longrightarrow> list_all (\<lambda>e. resolve ps e \<noteq> None) c"
  by (auto simp: list_all_iff in_stock_def split: option.splits)

lemma checkout_Inl: "checkout st cashier now form = (Inl e, st') \<Longrightarrow> st' = st"
  by (auto simp: checkout_def Let_def split: if_splits sum.splits prod.splits)

lemma checkout_Inr:
  assumes "checkout st cashier now form = (Inr order, st')"
  obtains d paid change ps new where
    "cart st \<noteq> []"
    "list_all (in_stock (products st)) (cart st)"
    "checkout_discount (promocodes st) now (promo_code_of form) (cart_amount (products st) (cart st)) = Inr d"
    "settle (payment_method_of form) (f_paid_cash form)
       (max 0 (round2 (cart_amount (products st) (cart st) - d))) = Inr (paid, change)"
    "order = \<lparr>o_id = next_order_id (orders st), o_cashier_id = cashier,
              o_total = max 0 (round2 (cart_amount (products st) (cart st) - d)),
              o_paid_cash = paid, o_change_due = change, o_created_at = now,
              o_payment_method = payment_method_of form\<rparr>"
    "st' = st\<lparr>products := ps, orders := orders st @ [order],
              order_items := order_items st @ new, cart := []\<rparr>"
    "map (sold_item (products st) (o_id order)) (cart st) = map Some new"
    "\<forall>i. get_product ps i = map_option (lower_stock (ordered (cart st) i)) (get_product (products st) i)"
proof -
  let ?sub = "cart_amount (products st) (cart st)"
  from assms have ne: "cart st \<noteq> []"
    by (auto simp: checkout_def split: if_splits)
  from assms ne obtain subtotal where "cart_subtotal (products st) (cart st) 0 = Inr subtotal"
    by (cases "cart_subtotal (products st) (cart st) 0") (auto simp: checkout_def)
  then have stock: "list_all (in_stock (products st)) (cart st)"
    and sub: "cart_subtotal (products st) (cart st) 0 = Inr ?sub"
    by (simp_all add: cart_subtotal_Inr)
  from assms ne sub obtain d where
    d: "checkout_discount (promocodes st) now (promo_code_of form) ?sub = Inr d"
    by (cases "checkout_discount (promocodes st) now (promo_code_of form) ?sub")
       (auto simp: checkout_def Let_def)
  let ?total = "max 0 (round2 (?sub - d))"
  from assms ne sub d obtain paid change where
    pay: "settle (payment_method_of form) (f_paid_cash form) ?total = Inr (paid, change)"
    by (cases "settle (payment_method_of form) (f_paid_cash form) ?total")
       (auto simp: checkout_def Let_def)
  let ?order = "\<lparr>o_id = next_order_id (orders st), o_cashier_id = cashier, o_total = ?total,
                 o_paid_cash = paid, o_change_due = change, o_created_at = now,
                 o_payment_method = payment_method_of form\<rparr>"
  from place_items_resolved [OF in_stock_resolves [OF stock], of "next_order_id (orders st)" "order_items st"]
  obtain ps new where
    run: "place_items (next_order_id (orders st)) (cart st) (products st) (order_items st) =
            Inr (ps, order_items st @ new)" and
    new: "map (sold_item (products st) (next_order_id (orders st))) (cart st) = map Some new" and
    get: "\<forall>i. get_product ps i = map_option (lower_stock (ordered (cart st) i)) (get_product (products st) i)"
    by blast
  from assms ne sub d pay run have order: "order = ?order"
    by (auto simp: checkout_def Let_def)
  from assms ne sub d pay run have st': "st' = st\<lparr>products := ps, orders := orders st @ [order],
              order_items := order_items st @ new, cart := []\<rparr>"
    by (auto simp: checkout_def Let_def)
  from new order have new': "map (sold_item (products st) (o_id order)) (cart st) = map Some new"
    by simp
  show thesis
    by (rule that [OF ne stock d pay order st' new' get])
qed




lemma usable_promo_None: "usable_promo pcs now code = None \<longleftrightarrow> unusable pcs now code"
  by (auto simp: usable_promo_def unusable_def not_expired_def split: option.splits)

lemma cart_subtotal_Inl:
  "cart_subtotal ps c s = Inl e \<Longrightarrow> e = ValueError \<or> (\<exists>name. e = InsufficientStock name)"
proof (induction c arbitrary: s)
  case Nil
  then show ?case by simp
next
  case (Cons x c)
  obtain pid qty where x: "x = (pid, qty)" by (cases x)
  from Cons show ?case
    by (auto simp: x split: option.splits if_splits)
qed

lemma cart_subtotal_fails:
  assumes "\<not> list_all (in_stock ps) c"
  shows "\<exists>e. cart_subtotal ps c s = Inl e \<and> (e = ValueError \<or> (\<exists>name. e = InsufficientStock name))"
proof (cases "cart_subtotal ps c s")
  case (Inl e)
  then show ?thesis using cart_subtotal_Inl by blast
next
  case (Inr t)
  with assms show ?thesis by (simp add: cart_subtotal_Inr)
qed


lemma fold_max_ge: "a \<le> fold max xs (a::int)"
  by (induction xs arbitrary: a) (auto intro: order_trans [OF max.cobounded2])

lemma fold_max_mem: "x \<in> set xs \<Longrightarrow> x \<le> fold max xs (a::int)"
proof (induction xs arbitrary: a)
  case Nil
  then show ?case by simp
next
  case (Cons y ys)
  show ?case
  proof (cases "x = y")
    case True
    have "x \<le> max y a" using True by simp
    also have "\<dots> \<le> fold max ys (max y a)" by (rule fold_max_ge)
    finally show ?thesis by simp
  next
    case False
    with Cons show ?thesis by simp
  qed
qed

lemma next_order_id_fresh: "ord \<in> set os \<Longrightarrow> o_id ord < next_order_id os"
  using fold_max_mem [of "o_id ord" "map o_id os" 0] by (simp add: next_order_id_def)

lemma sold_items_amount:
  "map (sold_item ps oid) c = map Some new \<Longrightarrow>
     sum_list (map (\<lambda>it. i_unit_price it * of_int (i_quantity it)) new) = cart_amount ps c"
proof (induction c arbitrary: new)
  case Nil
  then show ?case by (simp add: cart_amount_def)
next
  case (Cons e c)
  then obtain it rest where new: "new = it # rest" by (cases new) auto
  with Cons.prems have it: "sold_item ps oid e = Some it"
    and rest: "map (sold_item ps oid) c = map Some rest" by simp_all
  from it have "i_unit_price it * of_int (i_quantity it) = entry_amount ps e"
    by (auto simp: sold_item_def entry_amount_def)
  with Cons.IH [OF rest] show ?case by (simp add: new cart_amount_def)
qed

lemma sold_item_SomeD:
  "sold_item ps oid e = Some it \<Longrightarrow>
     \<exists>p. resolve ps e = Some p \<and> i_unit_price it = p_price p \<and> i_quantity it = snd e
        \<and> i_product_id it = p_id p \<and> i_order_id it = oid"
  by (auto simp: sold_item_def)


section \<open>Rounding and the discount of a promo code\<close>









section \<open>The cart\<close>










section \<open>The order that a checkout stores\<close>


lemma order180_stored: "fst (checkout shop 7 400 (pay_cash (Some '' save10 '') 250)) = Inr order180"
  by code_simp


text \<open>
  Claim C3. A checkout is all or nothing. When it fails, for whatever reason, the
  state it leaves is the state it found: no order, no order item, no stock change, the
  cart as it was. When it succeeds it stores the order, one item per cart entry, lowers
  each product's stock by the quantity the cart orders of it, and empties the cart. An
  empty cart, an entry without product or stock, an unusable promo code and cash below
  the total each make it fail.
\<close>

theorem checkout_all_or_nothing:
  "(checkout st cashier now form = (Inl e, st') \<longrightarrow> st' = st)
   \<and> (checkout st cashier now form = (Inr ord, st'') \<longrightarrow>
        orders st'' = orders st @ [ord]
      \<and> (\<exists>new. order_items st'' = order_items st @ new
               \<and> map (sold_item (products st) (o_id ord)) (cart st) = map Some new)
      \<and> (\<forall>i. get_product (products st'') i =
                map_option (lower_stock (ordered (cart st) i)) (get_product (products st) i))
      \<and> cart st'' = [] \<and> promocodes st'' = promocodes st)
   \<and> (cart st = [] \<longrightarrow> checkout st cashier now form = (Inl EmptyCart, st))
   \<and> (\<not> list_all (in_stock (products st)) (cart st) \<longrightarrow>
        (\<exists>err. checkout st cashier now form = (Inl err, st)
             \<and> (err = ValueError \<or> (\<exists>name. err = InsufficientStock name))))
   \<and> (cart st \<noteq> [] \<and> list_all (in_stock (products st)) (cart st)
        \<and> promo_code_of form \<noteq> [] \<and> unusable (promocodes st) now (promo_code_of form) \<longrightarrow>
        checkout st cashier now form = (Inl InvalidPromo, st))
   \<and> (cart st \<noteq> [] \<and> list_all (in_stock (products st)) (cart st)
        \<and> checkout_discount (promocodes st) now (promo_code_of form)
             (cart_amount (products st) (cart st)) = Inr d
        \<and> payment_method_of form = ''cash'' \<and> form_float (f_paid_cash form) = Inr tendered
        \<and> tendered < max 0 (round2 (cart_amount (products st) (cart st) - d)) \<longrightarrow>
        checkout st cashier now form = (Inl InsufficientPayment, st))"
proof -
  have 1: "checkout st cashier now form = (Inl e, st') \<longrightarrow> st' = st"
    using checkout_Inl by blast
  have 2: "checkout st cashier now form = (Inr ord, st'') \<longrightarrow>
        orders st'' = orders st @ [ord]
      \<and> (\<exists>new. order_items st'' = order_items st @ new
               \<and> map (sold_item (products st) (o_id ord)) (cart st) = map Some new)
      \<and> (\<forall>i. get_product (products st'') i =
                map_option (lower_stock (ordered (cart st) i)) (get_product (products st) i))
      \<and> cart st'' = [] \<and> promocodes st'' = promocodes st"
  proof
    assume "checkout st cashier now form = (Inr ord, st'')"
    then obtain ps new where
      st'': "st'' = st\<lparr>products := ps, orders := orders st @ [ord],
                order_items := order_items st @ new, cart := []\<rparr>"
      and new: "map (sold_item (products st) (o_id ord)) (cart st) = map Some new"
      and get: "\<forall>i. get_product ps i = map_option (lower_stock (ordered (cart st) i)) (get_product (products st) i)"
      by (rule checkout_Inr) blast
    show "orders st'' = orders st @ [ord]
      \<and> (\<exists>new. order_items st'' = order_items st @ new
               \<and> map (sold_item (products st) (o_id ord)) (cart st) = map Some new)
      \<and> (\<forall>i. get_product (products st'') i =
                map_option (lower_stock (ordered (cart st) i)) (get_product (products st) i))
      \<and> cart st'' = [] \<and> promocodes st'' = promocodes st"
      using new get by (simp add: st'')
  qed
  have 3: "cart st = [] \<longrightarrow> checkout st cashier now form = (Inl EmptyCart, st)"
    by (simp add: checkout_def)
  have 4: "\<not> list_all (in_stock (products st)) (cart st) \<longrightarrow>
        (\<exists>err. checkout st cashier now form = (Inl err, st)
             \<and> (err = ValueError \<or> (\<exists>name. err = InsufficientStock name)))"
  proof
    assume a: "\<not> list_all (in_stock (products st)) (cart st)"
    then have "cart st \<noteq> []" by auto
    moreover from cart_subtotal_fails [OF a, of 0] obtain err where
      "cart_subtotal (products st) (cart st) 0 = Inl err"
      "err = ValueError \<or> (\<exists>name. err = InsufficientStock name)" by blast
    ultimately show "\<exists>err. checkout st cashier now form = (Inl err, st)
             \<and> (err = ValueError \<or> (\<exists>name. err = InsufficientStock name))"
      by (simp add: checkout_def)
  qed
  have sub: "list_all (in_stock (products st)) (cart st) \<Longrightarrow>
     cart_subtotal (products st) (cart st) 0 = Inr (cart_amount (products st) (cart st))"
    by (simp add: cart_subtotal_Inr)
  have 5: "cart st \<noteq> [] \<and> list_all (in_stock (products st)) (cart st)
        \<and> promo_code_of form \<noteq> [] \<and> unusable (promocodes st) now (promo_code_of form) \<longrightarrow>
        checkout st cashier now form = (Inl InvalidPromo, st)"
    by (simp add: checkout_def sub checkout_discount_def usable_promo_None [symmetric])
  have 6: "cart st \<noteq> [] \<and> list_all (in_stock (products st)) (cart st)
        \<and> checkout_discount (promocodes st) now (promo_code_of form)
             (cart_amount (products st) (cart st)) = Inr d
        \<and> payment_method_of form = ''cash'' \<and> form_float (f_paid_cash form) = Inr tendered
        \<and> tendered < max 0 (round2 (cart_amount (products st) (cart st) - d)) \<longrightarrow>
        checkout st cashier now form = (Inl InsufficientPayment, st)"
    by (simp add: checkout_def sub settle_def)
  from 1 2 3 4 5 6 show ?thesis by blast
qed

lemma cash_short: "fst (checkout shop 7 400 (pay_cash (Some ''save10'') 100)) = Inl InsufficientPayment"
  by code_simp

theorem checkout_all_or_nothing_witness:
  "snd (checkout shop 7 400 (pay_cash (Some ''save10'') 100)) = shop
   \<and> orders (snd (checkout shop 7 400 (pay_cash (Some '' save10 '') 250))) = orders shop @ [order180]
   \<and> get_product (products (snd (checkout shop 7 400 (pay_cash (Some '' save10 '') 250)))) 1
        = Some (product_a\<lparr>p_stock := 3\<rparr>)
   \<and> cart (snd (checkout shop 7 400 (pay_cash (Some '' save10 '') 250))) = []
   \<and> checkout (shop\<lparr>cart := []\<rparr>) 7 400 (pay_card None) = (Inl EmptyCart, shop\<lparr>cart := []\<rparr>)
   \<and> snd (checkout (shop\<lparr>cart := [(''1'', 6)]\<rparr>) 7 400 (pay_card None)) = shop\<lparr>cart := [(''1'', 6)]\<rparr>
   \<and> checkout shop 7 600 (pay_card (Some ''flat100'')) = (Inl InvalidPromo, shop)
   \<and> checkout shop 7 400 (pay_cash (Some ''save10'') 100) = (Inl InsufficientPayment, shop)"
proof -
  let ?good = "pay_cash (Some '' save10 '') 250"
  let ?short = "pay_cash (Some ''save10'') 100"
  let ?over = "shop\<lparr>cart := [(''1'', 6)]\<rparr>"
  have run_short: "checkout shop 7 400 ?short = (Inl InsufficientPayment, snd (checkout shop 7 400 ?short))"
    using cash_short by (metis prod.collapse)
  have 1: "snd (checkout shop 7 400 ?short) = shop"
    by (rule checkout_all_or_nothing [THEN conjunct1, rule_format, OF run_short])
  have run_good: "checkout shop 7 400 ?good = (Inr order180, snd (checkout shop 7 400 ?good))"
    using order180_stored by (metis prod.collapse)
  have lowered: "map_option (lower_stock (ordered (cart shop) 1)) (get_product (products shop) 1)
                   = Some (product_a\<lparr>p_stock := 3\<rparr>)"
    by code_simp
  note stored = checkout_all_or_nothing [THEN conjunct2, THEN conjunct1, rule_format, OF run_good]
  have 2: "orders (snd (checkout shop 7 400 ?good)) = orders shop @ [order180]"
    by (rule stored [THEN conjunct1])
  have b2: "get_product (products (snd (checkout shop 7 400 ?good))) 1 = Some (product_a\<lparr>p_stock := 3\<rparr>)"
    using stored [THEN conjunct2, THEN conjunct2, THEN conjunct1, rule_format, of 1] lowered by simp
  have c2: "cart (snd (checkout shop 7 400 ?good)) = []"
    by (rule stored [THEN conjunct2, THEN conjunct2, THEN conjunct2, THEN conjunct1])
  have empty: "cart (shop\<lparr>cart := []\<rparr>) = []" by simp
  have 3: "checkout (shop\<lparr>cart := []\<rparr>) 7 400 (pay_card None) = (Inl EmptyCart, shop\<lparr>cart := []\<rparr>)"
    by (rule checkout_all_or_nothing [THEN conjunct2, THEN conjunct2, THEN conjunct1, rule_format, OF empty])
  have over: "\<not> list_all (in_stock (products ?over)) (cart ?over)" by code_simp
  from checkout_all_or_nothing [THEN conjunct2, THEN conjunct2, THEN conjunct2, THEN conjunct1, rule_format, OF over, of 7 400 "pay_card None"]
  have 4: "snd (checkout ?over 7 400 (pay_card None)) = ?over"
    by (elim exE conjE) simp
  have old: "cart shop \<noteq> [] \<and> list_all (in_stock (products shop)) (cart shop)
           \<and> promo_code_of (pay_card (Some ''flat100'')) \<noteq> []
           \<and> unusable (promocodes shop) 600 (promo_code_of (pay_card (Some ''flat100'')))"
    by code_simp
  have 5: "checkout shop 7 600 (pay_card (Some ''flat100'')) = (Inl InvalidPromo, shop)"
    by (rule checkout_all_or_nothing [THEN conjunct2, THEN conjunct2, THEN conjunct2, THEN conjunct2, THEN conjunct1, THEN mp, OF old])
  have pay: "cart shop \<noteq> [] \<and> list_all (in_stock (products shop)) (cart shop)
           \<and> checkout_discount (promocodes shop) 400 (promo_code_of ?short)
               (cart_amount (products shop) (cart shop)) = Inr 20
           \<and> payment_method_of ?short = ''cash'' \<and> form_float (f_paid_cash ?short) = Inr 100
           \<and> 100 < max 0 (round2 (cart_amount (products shop) (cart shop) - 20))"
    by code_simp
  have 6: "checkout shop 7 400 ?short = (Inl InsufficientPayment, shop)"
    by (rule checkout_all_or_nothing [THEN conjunct2, THEN conjunct2, THEN conjunct2, THEN conjunct2, THEN conjunct2, THEN mp, OF pay])
  from 1 2 b2 c2 3 4 5 6 show ?thesis by (intro conjI)
qed





text \<open>
  Claim C7. A successful checkout appends one order item per cart entry, in cart
  order, each with the order's identifier, the entry's quantity and the price the
  product has at checkout. The sum of quantity times unit price over these items is the
  subtotal from which the order's total was computed. When every stored item belongs to
  a stored order, these are exactly the items of the new order.
\<close>

theorem order_items_priced:
  assumes "checkout st cashier now form = (Inr ord, st')"
  shows "\<exists>new d.
           order_items st' = order_items st @ new
         \<and> list_all2 (\<lambda>e it. \<exists>p. resolve (products st) e = Some p
                               \<and> i_unit_price it = p_price p \<and> i_quantity it = snd e
                               \<and> i_product_id it = p_id p \<and> i_order_id it = o_id ord)
             (cart st) new
         \<and> sum_list (map (\<lambda>it. i_unit_price it * of_int (i_quantity it)) new)
             = cart_amount (products st) (cart st)
         \<and> checkout_discount (promocodes st) now (promo_code_of form)
             (cart_amount (products st) (cart st)) = Inr d
         \<and> o_total ord = max 0 (round2 (cart_amount (products st) (cart st) - d))
         \<and> (items_linked st \<longrightarrow> items_of st' ord = new)"
proof -
  from assms obtain d paid change ps new where
    d: "checkout_discount (promocodes st) now (promo_code_of form) (cart_amount (products st) (cart st)) = Inr d"
    and ord: "ord = \<lparr>o_id = next_order_id (orders st), o_cashier_id = cashier,
              o_total = max 0 (round2 (cart_amount (products st) (cart st) - d)),
              o_paid_cash = paid, o_change_due = change, o_created_at = now,
              o_payment_method = payment_method_of form\<rparr>"
    and st': "st' = st\<lparr>products := ps, orders := orders st @ [ord],
              order_items := order_items st @ new, cart := []\<rparr>"
    and new: "map (sold_item (products st) (o_id ord)) (cart st) = map Some new"
    by (rule checkout_Inr)
  have 1: "order_items st' = order_items st @ new" by (simp add: st')
  have len: "length (cart st) = length new"
    using arg_cong [OF new, of length] by simp
  have 2: "list_all2 (\<lambda>e it. \<exists>p. resolve (products st) e = Some p
                               \<and> i_unit_price it = p_price p \<and> i_quantity it = snd e
                               \<and> i_product_id it = p_id p \<and> i_order_id it = o_id ord)
             (cart st) new"
  proof (rule list_all2_all_nthI [OF len])
    fix n assume n: "n < length (cart st)"
    from new have "map (sold_item (products st) (o_id ord)) (cart st) ! n = map Some new ! n"
      by simp
    with n len have "sold_item (products st) (o_id ord) (cart st ! n) = Some (new ! n)"
      by simp
    then show "\<exists>p. resolve (products st) (cart st ! n) = Some p
                 \<and> i_unit_price (new ! n) = p_price p \<and> i_quantity (new ! n) = snd (cart st ! n)
                 \<and> i_product_id (new ! n) = p_id p \<and> i_order_id (new ! n) = o_id ord"
      by (rule sold_item_SomeD)
  qed
  have 3: "sum_list (map (\<lambda>it. i_unit_price it * of_int (i_quantity it)) new)
             = cart_amount (products st) (cart st)"
    by (rule sold_items_amount [OF new])
  have 5: "o_total ord = max 0 (round2 (cart_amount (products st) (cart st) - d))"
    by (simp add: ord)
  have 6: "items_linked st \<longrightarrow> items_of st' ord = new"
  proof
    assume linked: "items_linked st"
    have old: "filter (\<lambda>it. i_order_id it = o_id ord) (order_items st) = []"
    proof -
      have "i_order_id it \<noteq> o_id ord" if "it \<in> set (order_items st)" for it
      proof -
        from linked that obtain old where "old \<in> set (orders st)" "i_order_id it = o_id old"
          by (auto simp: items_linked_def list_all_iff)
        with next_order_id_fresh [of old "orders st"] show ?thesis by (simp add: ord)
      qed
      then show ?thesis by (auto simp: filter_empty_conv)
    qed
    have mine: "filter (\<lambda>it. i_order_id it = o_id ord) new = new"
      using 2 by (auto simp: filter_id_conv list_all2_conv_all_nth in_set_conv_nth)
    show "items_of st' ord = new"
      by (simp add: items_of_def st' old mine)
  qed
  from 1 2 3 d 5 6 show ?thesis by blast
qed

theorem order_items_priced_witness:
  "items_of (snd (checkout shop 7 400 (pay_cash (Some '' save10 '') 250))) order180
     = order_items (snd (checkout shop 7 400 (pay_cash (Some '' save10 '') 250)))
   \<and> list_all2 (\<lambda>e it. \<exists>p. resolve (products shop) e = Some p
                         \<and> i_unit_price it = p_price p \<and> i_quantity it = snd e
                         \<and> i_product_id it = p_id p \<and> i_order_id it = o_id order180)
        (cart shop) (order_items (snd (checkout shop 7 400 (pay_cash (Some '' save10 '') 250))))
   \<and> sum_list (map (\<lambda>it. i_unit_price it * of_int (i_quantity it))
        (order_items (snd (checkout shop 7 400 (pay_cash (Some '' save10 '') 250))))) = 200
   \<and> o_total order180 = max 0 (round2 (200 - 20))"
proof -
  let ?st' = "snd (checkout shop 7 400 (pay_cash (Some '' save10 '') 250))"
  have run: "checkout shop 7 400 (pay_cash (Some '' save10 '') 250) = (Inr order180, ?st')"
    using order180_stored by (metis prod.collapse)
  from order_items_priced [OF run] obtain new d where
    1: "order_items ?st' = order_items shop @ new" and
    2: "list_all2 (\<lambda>e it. \<exists>p. resolve (products shop) e = Some p
                         \<and> i_unit_price it = p_price p \<and> i_quantity it = snd e
                         \<and> i_product_id it = p_id p \<and> i_order_id it = o_id order180)
          (cart shop) new" and
    3: "sum_list (map (\<lambda>it. i_unit_price it * of_int (i_quantity it)) new)
          = cart_amount (products shop) (cart shop)" and
    4: "checkout_discount (promocodes shop) 400 (promo_code_of (pay_cash (Some '' save10 '') 250))
          (cart_amount (products shop) (cart shop)) = Inr d" and
    5: "o_total order180 = max 0 (round2 (cart_amount (products shop) (cart shop) - d))" and
    6: "items_linked shop \<longrightarrow> items_of ?st' order180 = new"
    by blast
  have linked: "items_linked shop" by code_simp
  have amount: "cart_amount (products shop) (cart shop) = 200" by code_simp
  have disc: "checkout_discount (promocodes shop) 400 (promo_code_of (pay_cash (Some '' save10 '') 250))
          (cart_amount (products shop) (cart shop)) = Inr 20" by code_simp
  have none: "order_items shop = []" by code_simp
  from 1 none have new: "new = order_items ?st'" by simp
  from 4 disc have d: "d = 20" by simp
  from 6 linked have a: "items_of ?st' order180 = order_items ?st'" by (simp add: new)
  from 2 have b: "list_all2 (\<lambda>e it. \<exists>p. resolve (products shop) e = Some p
                         \<and> i_unit_price it = p_price p \<and> i_quantity it = snd e
                         \<and> i_product_id it = p_id p \<and> i_order_id it = o_id order180)
          (cart shop) (order_items ?st')" by (simp add: new)
  from 3 have c: "sum_list (map (\<lambda>it. i_unit_price it * of_int (i_quantity it)) (order_items ?st')) = 200"
    by (simp add: new amount)
  from 5 have e: "o_total order180 = max 0 (round2 (200 - 20))" by (simp add: amount d)
  from a b c e show ?thesis by (intro conjI)
qed

section \<open>The POS view\<close>






section \<open>Stock\<close>

text \<open>
  When the keys of the cart read as different numbers, a successful checkout lowers
  the stock of each ordered product by the quantity of its entry, and the stock stays
  at or above zero, since each entry was checked against it.
\<close>

lemma ordered_absent:
  "\<forall>e \<in> set c. py_int (fst e) \<noteq> Some i \<Longrightarrow> ordered c i = 0"
  by (induction c) (auto simp: ordered_def)

lemma ordered_distinct:
  assumes "distinct (map (\<lambda>e. py_int (fst e)) c)" and "(pid, qty) \<in> set c" and "py_int pid = Some i"
  shows "ordered c i = qty"
  using assms
proof (induction c)
  case Nil
  then show ?case by simp
next
  case (Cons e c)
  show ?case
  proof (cases "e = (pid, qty)")
    case True
    from Cons.prems(1) have "py_int (fst e) \<notin> (\<lambda>e. py_int (fst e)) ` set c" by simp
    then have "\<forall>x \<in> set c. py_int (fst x) \<noteq> Some i"
      using True Cons.prems(3) by force
    then have "ordered c i = 0" by (rule ordered_absent)
    then show ?thesis using True Cons.prems(3) by (simp add: ordered_def)
  next
    case False
    with Cons.prems have mem: "(pid, qty) \<in> set c" by simp
    from Cons.prems(1) have d: "distinct (map (\<lambda>e. py_int (fst e)) c)" by simp
    from Cons.prems(1) mem have "py_int (fst e) \<noteq> py_int pid" by force
    with Cons.IH [OF d mem Cons.prems(3)] Cons.prems(3) show ?thesis
      by (simp add: ordered_def)
  qed
qed

lemma checkout_lowers_stock:
  assumes "checkout st cashier now form = (Inr ord, st')"
    and "distinct (map (\<lambda>e. py_int (fst e)) (cart st))"
    and "(pid, qty) \<in> set (cart st)" and "py_int pid = Some i"
  shows "\<exists>p. get_product (products st) i = Some p
           \<and> get_product (products st') i = Some (p\<lparr>p_stock := p_stock p - qty\<rparr>)
           \<and> 0 \<le> p_stock p - qty"
proof -
  from assms(1) obtain ps new where
    stock: "list_all (in_stock (products st)) (cart st)"
    and st': "st' = st\<lparr>products := ps, orders := orders st @ [ord],
              order_items := order_items st @ new, cart := []\<rparr>"
    and get: "\<forall>i. get_product ps i = map_option (lower_stock (ordered (cart st) i)) (get_product (products st) i)"
    by (rule checkout_Inr) blast
  from stock assms(3) have "in_stock (products st) (pid, qty)" by (simp add: list_all_iff)
  then obtain p where p: "get_product (products st) i = Some p" "qty \<le> p_stock p"
    by (auto simp: in_stock_def resolve_def assms(4) split: option.splits)
  have "ordered (cart st) i = qty" by (rule ordered_distinct [OF assms(2,3,4)])
  with get p show ?thesis by (simp add: st' lower_stock_def)
qed

text \<open>
  Claim C6 says that no checkout drives a stock below zero, because every cart entry
  was checked against the stock. The check is per entry, and \<open>update_qty\<close> stores the
  key it is given, so two keys can stand for one product: \<open>int("1") = int("01")\<close>. With
  stock 5 and the entries \<open>"1": 3\<close> and \<open>"01": 3\<close>, both entries pass the check, the
  checkout succeeds, and the stock ends at -1.
\<close>

theorem aliased_cart_oversells:
  "cart aliased = [(''1'', 3), (''01'', 3)]
   \<and> map p_stock (products aliased) = [5]
   \<and> list_all (in_stock (products aliased)) (cart aliased)
   \<and> fst (checkout aliased 7 400 (pay_card None)) =
       Inr \<lparr>o_id = 1, o_cashier_id = 7, o_total = 600, o_paid_cash = 600, o_change_due = 0,
            o_created_at = 400, o_payment_method = ''card''\<rparr>
   \<and> map p_stock (products (snd (checkout aliased 7 400 (pay_card None)))) = [- 1]"
  by code_simp

end
